theory Spec2Isabelle
  imports Complex_Main
begin

section \<open>JavaScript numbers\<close>

text \<open>
  The program computes with JavaScript numbers. Counters are integers (\<open>int\<close>); times,
  tempi, volumes and frequencies are idealised as exact reals, so rounding of doubles is
  outside this development. Where JavaScript would produce \<open>NaN\<close> or \<open>Infinity\<close>
  (a remainder by zero, \<open>60 / 0\<close>) the model says so with \<open>None\<close> instead of using
  HOL's \<open>x / 0 = 0\<close>.
\<close>

definition js_rem :: "int \<Rightarrow> int \<Rightarrow> int option" where
  \<comment> \<open>\<open>a % b\<close> on integers: the sign follows the dividend; \<open>NaN\<close> for \<open>b = 0\<close>.\<close>
  "js_rem a b = (if b = 0 then None else Some (sgn a * (\<bar>a\<bar> mod \<bar>b\<bar>)))"

definition js_trunc :: "real \<Rightarrow> int" where
  "js_trunc q = (if 0 \<le> q then \<lfloor>q\<rfloor> else \<lceil>q\<rceil>)"

definition js_fmod :: "real \<Rightarrow> real \<Rightarrow> real option" where
  \<comment> \<open>\<open>a % b\<close> on numbers: \<open>a - b * trunc (a / b)\<close>; \<open>NaN\<close> for \<open>b = 0\<close>.\<close>
  "js_fmod a b = (if b = 0 then None else Some (a - b * of_int (js_trunc (a / b))))"

section \<open>The recording metronome (\<open>useRecordingMetronome\<close>)\<close>

text \<open>
  One render of the hook binds the values of its state variables and of the prop
  \<open>onPreRollComplete\<close> (here: whether a callback was passed) to constants. Every callback
  created in that render (\<open>scheduleNextBeat\<close>, \<open>start\<close>, \<open>startForPlayback\<close>) reads
  these constants; a state setter changes the state the next render will see, never the
  constants of a callback that already exists. \<open>scheduleNextBeat\<close> re-arms itself with
  \<open>setTimeout(scheduleNextBeat, 25)\<close>, that is with the very same callback.
\<close>

record render =
  tempo :: real
  timeSignature :: int
  isPlaying :: bool
  isPreRoll :: bool
  currentBeat :: "int option"  \<comment> \<open>\<open>None\<close> is \<open>NaN\<close>\<close>
  preRollBeat :: int
  onPreRollComplete :: bool

datatype effect =
    HiHat bool bool  \<comment> \<open>\<open>playHiHat(isAccent, isPreRoll)\<close>\<close>
  | PreRollComplete  \<comment> \<open>\<open>onPreRollComplete()\<close> was called\<close>

record metronome =
  reactState :: render  \<comment> \<open>what the state setters have written\<close>
  nextBeatTimeRef :: real
  timerIdRef :: "nat option"
  beatCountRef :: int
  preRollCountRef :: int
  effects :: "effect list"  \<comment> \<open>sounds played and callbacks called, oldest first\<close>
  pendingTimers :: "nat list"  \<comment> \<open>handles of timeouts not yet fired or cleared\<close>
  lastHandle :: nat

definition preRollBars :: int where
  \<comment> \<open>\<open>DEFAULT_CONFIG.preRollBars\<close>\<close>
  "preRollBars = 1"

definition mount :: "real \<Rightarrow> bool \<Rightarrow> metronome" where
  \<comment> \<open>the hook after its first render: \<open>useState\<close> and \<open>useRef\<close> initial values\<close>
  "mount initialTempo cb =
     \<lparr>reactState = \<lparr>tempo = initialTempo, timeSignature = 4, isPlaying = False,
        isPreRoll = False, currentBeat = Some 0, preRollBeat = 0, onPreRollComplete = cb\<rparr>,
      nextBeatTimeRef = 0, timerIdRef = None, beatCountRef = 0, preRollCountRef = 0,
      effects = [], pendingTimers = [], lastHandle = 0\<rparr>"

definition setIsPlaying :: "bool \<Rightarrow> metronome \<Rightarrow> metronome" where
  "setIsPlaying v h = h\<lparr>reactState := (reactState h)\<lparr>isPlaying := v\<rparr>\<rparr>"

definition setIsPreRoll :: "bool \<Rightarrow> metronome \<Rightarrow> metronome" where
  "setIsPreRoll v h = h\<lparr>reactState := (reactState h)\<lparr>isPreRoll := v\<rparr>\<rparr>"

definition setCurrentBeat :: "int option \<Rightarrow> metronome \<Rightarrow> metronome" where
  "setCurrentBeat v h = h\<lparr>reactState := (reactState h)\<lparr>currentBeat := v\<rparr>\<rparr>"

definition setPreRollBeat :: "int \<Rightarrow> metronome \<Rightarrow> metronome" where
  "setPreRollBeat v h = h\<lparr>reactState := (reactState h)\<lparr>preRollBeat := v\<rparr>\<rparr>"

definition playHiHat :: "bool \<Rightarrow> bool \<Rightarrow> metronome \<Rightarrow> metronome" where
  \<comment> \<open>the synthesised click sounds at once, at \<open>ctx.currentTime\<close>\<close>
  "playHiHat isAccent pre h = h\<lparr>effects := effects h @ [HiHat isAccent pre]\<rparr>"

definition callOnPreRollComplete :: "render \<Rightarrow> metronome \<Rightarrow> metronome" where
  \<comment> \<open>\<open>onPreRollComplete?.()\<close>\<close>
  "callOnPreRollComplete r h =
     (if onPreRollComplete r then h\<lparr>effects := effects h @ [PreRollComplete]\<rparr> else h)"

definition setTimeout :: "metronome \<Rightarrow> metronome" where
  \<comment> \<open>\<open>timerIdRef.current = setTimeout(scheduleNextBeat, 25)\<close>: handles are positive and fresh\<close>
  "setTimeout h =
     h\<lparr>timerIdRef := Some (Suc (lastHandle h)),
       pendingTimers := pendingTimers h @ [Suc (lastHandle h)],
       lastHandle := Suc (lastHandle h)\<rparr>"

definition clearTimeout :: "nat \<Rightarrow> metronome \<Rightarrow> metronome" where
  "clearTimeout t h = h\<lparr>pendingTimers := removeAll t (pendingTimers h)\<rparr>"

definition beat :: "render \<Rightarrow> real \<Rightarrow> metronome \<Rightarrow> metronome" where
  \<comment> \<open>one pass through the body of the \<open>while\<close> loop of \<open>scheduleNextBeat\<close>\<close>
  "beat r secondsPerBeat h =
     (let beatInBar = js_rem (beatCountRef h) (timeSignature r);
          isAccent = (beatInBar = Some 0);
          h1 = (if isPreRoll r then
                  (let h2 = playHiHat isAccent True h;
                       h3 = h2\<lparr>preRollCountRef := preRollCountRef h2 + 1\<rparr>;
                       h4 = setPreRollBeat (preRollCountRef h3) h3
                   in if preRollCountRef h4 \<ge> timeSignature r * preRollBars then
                        callOnPreRollComplete r
                          ((setIsPreRoll False h4)\<lparr>preRollCountRef := 0, beatCountRef := 0\<rparr>)
                      else h4)
                else setCurrentBeat (map_option (\<lambda>b. b + 1) beatInBar)
                       (playHiHat isAccent False h))
      in h1\<lparr>beatCountRef := beatCountRef h1 + 1,
            nextBeatTimeRef := nextBeatTimeRef h1 + secondsPerBeat\<rparr>)"

partial_function (option) lookAhead :: "render \<Rightarrow> real \<Rightarrow> real \<Rightarrow> metronome \<Rightarrow> metronome option" where
  \<comment> \<open>\<open>while (nextBeatTimeRef.current < ctx.currentTime + 0.1)\<close>; \<open>None\<close>: the loop never ends\<close>
  "lookAhead r secondsPerBeat now h =
     (if nextBeatTimeRef h < now + 1 / 10
      then lookAhead r secondsPerBeat now (beat r secondsPerBeat h)
      else Some h)"

declare lookAhead.simps [code]

definition scheduleNextBeat :: "render \<Rightarrow> real \<Rightarrow> metronome \<Rightarrow> metronome option" where
  \<comment> \<open>\<open>now\<close> is \<open>ctx.currentTime\<close>. \<open>None\<close>: the call does not return (a negative tempo
      moves \<open>nextBeatTimeRef\<close> backwards for ever), or \<open>tempo = 0\<close>, where
      \<open>secondsPerBeat\<close> is \<open>Infinity\<close>, which the model does not represent.\<close>
  "scheduleNextBeat r now h =
     (if tempo r = 0 then None
      else map_option setTimeout (lookAhead r (60 / tempo r) now h))"

definition start :: "render \<Rightarrow> bool \<Rightarrow> real \<Rightarrow> metronome \<Rightarrow> metronome option" where
  "start r withPreRoll now h =
     (let h1 = h\<lparr>beatCountRef := 0, preRollCountRef := 0, nextBeatTimeRef := now + 5 / 100\<rparr>;
          h2 = (if withPreRoll then setPreRollBeat 0 (setIsPreRoll True h1)
                else setIsPreRoll False h1);
          h3 = setCurrentBeat (Some 0) (setIsPlaying True h2)
      in scheduleNextBeat r now h3)"

definition stop :: "metronome \<Rightarrow> metronome" where
  "stop h =
     (let h1 = (case timerIdRef h of
                  Some t \<Rightarrow> (clearTimeout t h)\<lparr>timerIdRef := None\<rparr>
                | None \<Rightarrow> h);
          h2 = setPreRollBeat 0 (setCurrentBeat (Some 0) (setIsPreRoll False (setIsPlaying False h1)))
      in h2\<lparr>beatCountRef := 0, preRollCountRef := 0\<rparr>)"


definition timerFires :: "render \<Rightarrow> real \<Rightarrow> metronome \<Rightarrow> metronome option" where
  \<comment> \<open>the browser runs the pending timeout of \<open>timerIdRef\<close> at audio time \<open>now\<close>; a cleared
      timeout never runs\<close>
  "timerFires r now h =
     (case timerIdRef h of
        None \<Rightarrow> Some h
      | Some t \<Rightarrow>
          if t \<in> set (pendingTimers h)
          then scheduleNextBeat r now (h\<lparr>pendingTimers := removeAll t (pendingTimers h)\<rparr>)
          else Some h)"

fun timerFiresAt :: "render \<Rightarrow> real list \<Rightarrow> metronome \<Rightarrow> metronome option" where
  "timerFiresAt r [] h = Some h"
| "timerFiresAt r (now # nows) h =
     (case timerFires r now h of None \<Rightarrow> None | Some h' \<Rightarrow> timerFiresAt r nows h')"


section \<open>The playhead animator (\<open>useLoopMode\<close>)\<close>

text \<open>
  \<open>RHYTHM_CONFIG\<close> is imported from \<open>config/uiConfig.js\<close>, which is not among the
  sources; its two numbers are parameters of the model. The refs of the hook are fields of
  the record; \<open>audio\<close> is \<open>schedulerRef.current?.getAudioContext?.()\<close>, reduced to what
  is read from it: \<open>None\<close> when there is no audio context yet, else its \<open>currentTime\<close>.
\<close>

record rhythmConfig =
  beatsPerMeasure :: int
  tripletsPerBeat :: int

record loopMode =
  playhead :: real
  highlightNoteIndex :: int
  rafRef :: "nat option"
  startTimeRef :: "real option"  \<comment> \<open>\<open>None\<close> is \<open>null\<close>\<close>
  lastLoopCountRef :: int
  playheadRef :: real
  tempoRef :: real
  loopLengthRef :: int
  onLoopRestartRef :: bool  \<comment> \<open>whether a callback is registered\<close>
  restarts :: nat  \<comment> \<open>calls of \<open>onLoopRestart\<close> so far\<close>
  frames :: nat  \<comment> \<open>animation frames requested so far\<close>
  cancelledFrames :: "nat list"
  retries :: nat  \<comment> \<open>50 ms retry timeouts armed by \<open>start\<close>\<close>

definition mountLoopMode :: "real \<Rightarrow> int \<Rightarrow> bool \<Rightarrow> loopMode" where
  "mountLoopMode t len cb =
     \<lparr>playhead = 0, highlightNoteIndex = - 1, rafRef = None, startTimeRef = None,
      lastLoopCountRef = 0, playheadRef = 0, tempoRef = t, loopLengthRef = len,
      onLoopRestartRef = cb, restarts = 0, frames = 0, cancelledFrames = [], retries = 0\<rparr>"

definition getLoopDuration :: "rhythmConfig \<Rightarrow> loopMode \<Rightarrow> real option" where
  \<comment> \<open>\<open>(60 / tempo) * beatsPerMeasure * loopLength\<close>; not a finite number for tempo 0\<close>
  "getLoopDuration cfg h =
     (if tempoRef h = 0 then None
      else Some (60 / tempoRef h * of_int (beatsPerMeasure cfg) * of_int (loopLengthRef h)))"

definition requestAnimationFrame :: "loopMode \<Rightarrow> loopMode" where
  \<comment> \<open>\<open>rafRef.current = requestAnimationFrame(tick)\<close>\<close>
  "requestAnimationFrame h = h\<lparr>frames := Suc (frames h), rafRef := Some (Suc (frames h))\<rparr>"

definition cancelAnimationFrame :: "nat \<Rightarrow> loopMode \<Rightarrow> loopMode" where
  "cancelAnimationFrame t h = h\<lparr>cancelledFrames := cancelledFrames h @ [t]\<rparr>"

definition callOnLoopRestart :: "loopMode \<Rightarrow> loopMode" where
  \<comment> \<open>\<open>onLoopRestartRef.current?.()\<close>\<close>
  "callOnLoopRestart h = (if onLoopRestartRef h then h\<lparr>restarts := Suc (restarts h)\<rparr> else h)"

definition tick :: "rhythmConfig \<Rightarrow> real option \<Rightarrow> loopMode \<Rightarrow> loopMode option" where
  \<comment> \<open>\<open>None\<close>: a value that is not a finite number arises (tempo 0, loop duration 0)\<close>
  "tick cfg audio h =
     (case audio of
        None \<Rightarrow> Some (requestAnimationFrame h)
      | Some now \<Rightarrow>
          (let elapsed = now - (case startTimeRef h of None \<Rightarrow> 0 | Some t \<Rightarrow> t)
           in if elapsed < 0 then Some (requestAnimationFrame h)
              else
                (case getLoopDuration cfg h of
                   None \<Rightarrow> None
                 | Some loopDuration \<Rightarrow>
                    (case js_fmod elapsed loopDuration of
                       None \<Rightarrow> None
                     | Some m \<Rightarrow>
                        (let progress = m / loopDuration;
                             currentLoopCount = \<lfloor>elapsed / loopDuration\<rfloor>;
                             h1 = (if currentLoopCount > lastLoopCountRef h
                                   then callOnLoopRestart (h\<lparr>lastLoopCountRef := currentLoopCount\<rparr>)
                                   else h);
                             h2 = h1\<lparr>playheadRef := progress, playhead := progress\<rparr>;
                             beatProgress =
                               progress * of_int (beatsPerMeasure cfg) * of_int (loopLengthRef h);
                             noteIndex = \<lfloor>beatProgress\<rfloor> * tripletsPerBeat cfg
                         in Some (requestAnimationFrame (h2\<lparr>highlightNoteIndex := noteIndex\<rparr>)))))))"

fun ticks :: "rhythmConfig \<Rightarrow> real list \<Rightarrow> loopMode \<Rightarrow> loopMode option" where
  \<comment> \<open>successive frames, each reading the audio clock\<close>
  "ticks cfg [] h = Some h"
| "ticks cfg (now # nows) h =
     (case tick cfg (Some now) h of None \<Rightarrow> None | Some h' \<Rightarrow> ticks cfg nows h')"

definition startLoop :: "real option \<Rightarrow> loopMode \<Rightarrow> loopMode" where
  \<comment> \<open>\<open>start\<close> of \<open>useLoopMode\<close>\<close>
  "startLoop audio h =
     (case audio of
        None \<Rightarrow> h\<lparr>retries := Suc (retries h)\<rparr>
      | Some now \<Rightarrow>
          (let h1 = h\<lparr>startTimeRef := Some now, lastLoopCountRef := 0, playheadRef := 0,
                      playhead := 0, highlightNoteIndex := 0\<rparr>;
               h2 = (case rafRef h1 of Some t \<Rightarrow> cancelAnimationFrame t h1 | None \<Rightarrow> h1)
           in requestAnimationFrame h2))"

definition stopLoop :: "loopMode \<Rightarrow> loopMode" where
  \<comment> \<open>\<open>stop\<close> of \<open>useLoopMode\<close>\<close>
  "stopLoop h =
     (let h1 = (case rafRef h of
                  Some t \<Rightarrow> (cancelAnimationFrame t h)\<lparr>rafRef := None\<rparr>
                | None \<Rightarrow> h)
      in h1\<lparr>playhead := 0, highlightNoteIndex := - 1, playheadRef := 0\<rparr>)"

definition seek :: "rhythmConfig \<Rightarrow> real option \<Rightarrow> real \<Rightarrow> loopMode \<Rightarrow> loopMode option" where
  "seek cfg audio position h =
     (let clamped = max 0 (min 1 position);
          h1 = h\<lparr>playhead := clamped, playheadRef := clamped\<rparr>
      in case audio of
           None \<Rightarrow> Some h1
         | Some now \<Rightarrow>
             (case getLoopDuration cfg h1 of
                None \<Rightarrow> None
              | Some loopDuration \<Rightarrow>
                  Some (h1\<lparr>startTimeRef := Some (now - clamped * loopDuration)\<rparr>)))"

section \<open>The audio service (\<open>AudioService\<close>)\<close>

text \<open>
  A gain node is reduced to its \<open>gain\<close> parameter: the current value and the automation
  events scheduled on it, in time order. Of the Web Audio interface only the methods the
  service calls are modelled: \<open>cancelScheduledValues t\<close> drops the events at or after
  \<open>t\<close>, \<open>setValueAtTime\<close> and the ramps add an event, and each raises \<open>RangeError\<close> for
  a negative time. A parameter set to a value that is not a finite number raises
  \<open>TypeError\<close>. \<open>STRING_FREQUENCIES\<close> and \<open>SAMPLE_CONFIG.bass.baseFrequency\<close> come from
  \<open>config/audioConfig.js\<close>, which is not among the sources: they are parameters.
\<close>

datatype js_error = TypeError | RangeError

datatype automation =
    SetValueAtTime real real  \<comment> \<open>value, time\<close>
  | LinearRampToValueAtTime real real
  | ExponentialRampToValueAtTime real real

fun eventValue :: "automation \<Rightarrow> real" where
  "eventValue (SetValueAtTime v t) = v"
| "eventValue (LinearRampToValueAtTime v t) = v"
| "eventValue (ExponentialRampToValueAtTime v t) = v"

fun eventTime :: "automation \<Rightarrow> real" where
  "eventTime (SetValueAtTime v t) = t"
| "eventTime (LinearRampToValueAtTime v t) = t"
| "eventTime (ExponentialRampToValueAtTime v t) = t"

record audioParam =
  paramValue :: real  \<comment> \<open>what reading \<open>gain.value\<close> returns now\<close>
  automations :: "automation list"

definition endValue :: "audioParam \<Rightarrow> real" where
  \<comment> \<open>the value the parameter holds once every scheduled event has passed\<close>
  "endValue p = (if automations p = [] then paramValue p else eventValue (last (automations p)))"

definition andThen :: "js_error + 'a \<Rightarrow> ('a \<Rightarrow> js_error + 'b) \<Rightarrow> js_error + 'b" where
  \<comment> \<open>statements in sequence: an exception skips the rest\<close>
  "andThen x f = (case x of Inl e \<Rightarrow> Inl e | Inr a \<Rightarrow> f a)"

definition cancelScheduledValues :: "real \<Rightarrow> audioParam \<Rightarrow> js_error + audioParam" where
  "cancelScheduledValues t p =
     (if t < 0 then Inl RangeError
      else Inr (p\<lparr>automations := filter (\<lambda>e. eventTime e < t) (automations p)\<rparr>))"

definition setValueAtTime :: "real \<Rightarrow> real \<Rightarrow> audioParam \<Rightarrow> js_error + audioParam" where
  "setValueAtTime v t p =
     (if t < 0 then Inl RangeError
      else Inr (p\<lparr>automations := automations p @ [SetValueAtTime v t]\<rparr>))"

definition linearRampToValueAtTime :: "real \<Rightarrow> real \<Rightarrow> audioParam \<Rightarrow> js_error + audioParam" where
  "linearRampToValueAtTime v t p =
     (if t < 0 then Inl RangeError
      else Inr (p\<lparr>automations := automations p @ [LinearRampToValueAtTime v t]\<rparr>))"

datatype audioBuffer = AudioBuffer string  \<comment> \<open>decoded from this path\<close>

datatype sound =
    BassNote real "automation list" real real  \<comment> \<open>playback rate, envelope, start, stop\<close>
  | MetronomeClick real real  \<comment> \<open>dynamics gain, start\<close>
  | CountdownBeep real "automation list" real real  \<comment> \<open>frequency, envelope, start, stop\<close>

fun playbackRate :: "sound \<Rightarrow> real option" where
  "playbackRate (BassNote rate env t0 t1) = Some rate"
| "playbackRate (MetronomeClick g t0) = None"
| "playbackRate (CountdownBeep f env t0 t1) = None"

record audioContext =
  currentTime :: real

record audioService =
  ctx :: "audioContext option"  \<comment> \<open>the field \<open>context\<close>; \<open>None\<close> is \<open>null\<close>\<close>
  isReady :: bool
  buffers_bass :: "audioBuffer option"
  buffers_metronome_click :: "audioBuffer option"
  masterGains_bass :: "audioParam option"
  masterGains_metronome :: "audioParam option"
  samplesLoaded :: bool
  sounds :: "sound list"  \<comment> \<open>sources created and started, oldest first\<close>

record audioConfig =
  STRING_FREQUENCIES :: "string \<rightharpoonup> real"
  baseFrequency :: real

definition newAudioService :: audioService where
  \<comment> \<open>the constructor\<close>
  "newAudioService =
     \<lparr>ctx = None, isReady = False, buffers_bass = None, buffers_metronome_click = None,
      masterGains_bass = None, masterGains_metronome = None, samplesLoaded = False, sounds = []\<rparr>"

definition init :: "audioService \<Rightarrow> audioService" where
  "init s =
     (case ctx s of
        None \<Rightarrow>
          s\<lparr>ctx := Some \<lparr>currentTime = 0\<rparr>,
            masterGains_bass := Some \<lparr>paramValue = 7 / 10, automations = []\<rparr>,
            masterGains_metronome := Some \<lparr>paramValue = 5 / 10, automations = []\<rparr>\<rparr>
      | Some c \<Rightarrow> s)"

definition close :: "audioService \<Rightarrow> audioService" where
  "close s =
     (case ctx s of
        None \<Rightarrow> s
      | Some c \<Rightarrow>
          s\<lparr>ctx := None, isReady := False, samplesLoaded := False, buffers_bass := None,
            buffers_metronome_click := None, masterGains_bass := None,
            masterGains_metronome := None\<rparr>)"

definition loadSamples :: "audioBuffer option \<Rightarrow> audioBuffer option \<Rightarrow> audioService \<Rightarrow> audioService" where
  \<comment> \<open>the two arguments are what \<open>loadSample\<close> resolves to: a buffer, or \<open>null\<close> on failure\<close>
  "loadSamples bass click s =
     (case ctx s of
        None \<Rightarrow> s
      | Some c \<Rightarrow> s\<lparr>buffers_bass := bass, buffers_metronome_click := click, samplesLoaded := True\<rparr>)"

definition setBassVolume :: "real \<Rightarrow> audioService \<Rightarrow> audioService" where
  "setBassVolume volume s =
     (case masterGains_bass s of
        Some g \<Rightarrow> s\<lparr>masterGains_bass := Some (g\<lparr>paramValue := volume\<rparr>)\<rparr>
      | None \<Rightarrow> s)"

definition setMetronomeVolume :: "real \<Rightarrow> audioService \<Rightarrow> audioService" where
  "setMetronomeVolume volume s =
     (case masterGains_metronome s of
        Some g \<Rightarrow> s\<lparr>masterGains_metronome := Some (g\<lparr>paramValue := volume\<rparr>)\<rparr>
      | None \<Rightarrow> s)"

definition restoreVolumes :: "real \<Rightarrow> real \<Rightarrow> audioService \<Rightarrow> audioService" where
  "restoreVolumes bassVolume metronomeVolume s =
     setMetronomeVolume metronomeVolume (setBassVolume bassVolume s)"

definition rampToSilence :: "real \<Rightarrow> audioParam \<Rightarrow> js_error + audioParam" where
  \<comment> \<open>the three calls \<open>stopAllSounds\<close> makes on one master gain\<close>
  "rampToSilence t g =
     andThen (cancelScheduledValues t g) (\<lambda>g1.
     andThen (setValueAtTime (paramValue g1) t g1) (\<lambda>g2.
     linearRampToValueAtTime 0 (t + 1 / 100) g2))"

definition stopAllSounds :: "audioService \<Rightarrow> js_error + audioService" where
  "stopAllSounds s =
     (case ctx s of
        None \<Rightarrow> Inr s
      | Some c \<Rightarrow>
          andThen
            (case masterGains_bass s of
               None \<Rightarrow> Inr s
             | Some g \<Rightarrow>
                 andThen (rampToSilence (currentTime c) g)
                   (\<lambda>g'. Inr (s\<lparr>masterGains_bass := Some g'\<rparr>)))
            (\<lambda>s1. case masterGains_metronome s1 of
               None \<Rightarrow> Inr s1
             | Some g \<Rightarrow>
                 andThen (rampToSilence (currentTime c) g)
                   (\<lambda>g'. Inr (s1\<lparr>masterGains_metronome := Some g'\<rparr>))))"

definition playSampleNote :: "audioConfig \<Rightarrow> string \<Rightarrow> real \<Rightarrow> real \<Rightarrow> audioService \<Rightarrow> js_error + audioService" where
  "playSampleNote cfg string fret time s =
     (if buffers_bass s = None \<or> masterGains_bass s = None then Inr s
      else
        (case STRING_FREQUENCIES cfg string of
           None \<Rightarrow> Inl TypeError  \<comment> \<open>the rate is \<open>NaN\<close>\<close>
         | Some baseFreq \<Rightarrow>
            (let targetFreq = baseFreq * 2 powr (fret / 12)
             in if baseFrequency cfg = 0 \<or> ctx s = None then Inl TypeError
                else if time < 0 then Inl RangeError
                else
                  (let playbackRate = targetFreq / baseFrequency cfg
                   in Inr (s\<lparr>sounds := sounds s @
                        [BassNote playbackRate
                           [SetValueAtTime 0 time, LinearRampToValueAtTime 1 (time + 5 / 100),
                            ExponentialRampToValueAtTime (1 / 1000) (time + 5 / 10)]
                           time (time + 6 / 10)]\<rparr>)))))"

definition playSound :: "audioConfig \<Rightarrow> string \<Rightarrow> real \<Rightarrow> real \<Rightarrow> bool \<Rightarrow> audioService \<Rightarrow> js_error + audioService" where
  "playSound cfg string fret time muted s =
     (if ctx s = None \<or> muted then Inr s
      else if buffers_bass s \<noteq> None then playSampleNote cfg string fret time s
      else Inr s)"

definition playSampleMetronome :: "real \<Rightarrow> bool \<Rightarrow> bool \<Rightarrow> audioService \<Rightarrow> js_error + audioService" where
  "playSampleMetronome time isDownbeat isFirstOfBeat s =
     (if buffers_metronome_click s = None \<or> masterGains_metronome s = None then Inr s
      else if ctx s = None then Inl TypeError
      else
        (let beatMultiplier =
               (if isDownbeat \<and> isFirstOfBeat then 14 / 10 else if isFirstOfBeat then 1 else 5 / 10)
         in if time < 0 then Inl RangeError
            else Inr (s\<lparr>sounds := sounds s @ [MetronomeClick beatMultiplier time]\<rparr>)))"

definition playMetronomeClick :: "real \<Rightarrow> bool \<Rightarrow> bool \<Rightarrow> bool \<Rightarrow> audioService \<Rightarrow> js_error + audioService" where
  "playMetronomeClick time isDownbeat isFirstOfBeat enabled s =
     (if ctx s = None \<or> \<not> enabled then Inr s
      else if buffers_metronome_click s \<noteq> None
        then playSampleMetronome time isDownbeat isFirstOfBeat s
      else Inr s)"

definition playCountdownBeep :: "bool \<Rightarrow> audioService \<Rightarrow> js_error + audioService" where
  \<comment> \<open>an oscillator, connected to the destination directly\<close>
  "playCountdownBeep isStart s =
     (case ctx s of
        None \<Rightarrow> Inr s
      | Some c \<Rightarrow>
          (let t = currentTime c
           in if t < 0 then Inl RangeError
              else Inr (s\<lparr>sounds := sounds s @
                     [CountdownBeep (if isStart then 880 else 440)
                        [SetValueAtTime 0 t, LinearRampToValueAtTime (3 / 10) (t + 2 / 100),
                         ExponentialRampToValueAtTime (1 / 1000) (t + 15 / 100)]
                        t (t + 2 / 10)]\<rparr>)))"

text \<open>
  The service is a module-level singleton; the metronome's counters are refs of the hook.
  A method of the service called from anywhere in the application works on the service
  alone.
\<close>

record app =
  service :: audioService
  recordingMetronome :: metronome

definition onAudioService :: "(audioService \<Rightarrow> js_error + audioService) \<Rightarrow> app \<Rightarrow> js_error + app" where
  "onAudioService f a = andThen (f (service a)) (\<lambda>s. Inr (a\<lparr>service := s\<rparr>))"

section \<open>What the specification says, for comparison\<close>

text \<open>
  The loop count a frame observes, the number of times a sequence of observed loop counts
  rises above everything seen before it, and the sequences in which no rise skips a loop.
\<close>

definition loopCountAt :: "real \<Rightarrow> real \<Rightarrow> real \<Rightarrow> int" where
  \<comment> \<open>\<open>floor (elapsed / loopDuration)\<close> at the clock reading \<open>now\<close>\<close>
  "loopCountAt loopDuration startTime now = \<lfloor>(now - startTime) / loopDuration\<rfloor>"

fun increases :: "int \<Rightarrow> int list \<Rightarrow> nat" where
  "increases seen [] = 0"
| "increases seen (k # ks) = (if k > seen then Suc (increases k ks) else increases seen ks)"

fun stepwise :: "int \<Rightarrow> int list \<Rightarrow> bool" where
  "stepwise seen [] = True"
| "stepwise seen (k # ks) = (k \<le> seen + 1 \<and> stepwise (max seen k) ks)"

text \<open>
  A master gain after an emergency mute at time \<open>t\<close>: what was scheduled from \<open>t\<close> on is
  gone, the current value is pinned at \<open>t\<close>, and one linear ramp reaches 0 at \<open>t + 10 ms\<close>.
\<close>

definition mutedAt :: "real \<Rightarrow> audioParam \<Rightarrow> audioParam" where
  "mutedAt t g =
     g\<lparr>automations := filter (\<lambda>e. eventTime e < t) (automations g)
          @ [SetValueAtTime (paramValue g) t, LinearRampToValueAtTime 0 (t + 1 / 100)]\<rparr>"



section \<open>Properties of the metronome\<close>

lemma js_rem_nonneg:
  "0 \<le> a \<Longrightarrow> 1 \<le> b \<Longrightarrow> js_rem a b = Some (a mod b)"
  by (simp add: js_rem_def sgn_if)

text \<open>
  C9. \<open>stop\<close> clears the timeout held in \<open>timerIdRef\<close>, so that it is no longer pending,
  empties \<open>timerIdRef\<close>, resets the beat counter, the pre-roll counter and the published
  \<open>currentBeat\<close> and \<open>preRollBeat\<close> to 0 and \<open>isPlaying\<close>, \<open>isPreRoll\<close> to false. It always
  returns, and a second \<open>stop\<close> changes nothing.
\<close>

theorem stop_resets_and_is_idempotent:
  "timerIdRef (stop h) = None
   \<and> (case timerIdRef h of None \<Rightarrow> pendingTimers (stop h) = pendingTimers h
       | Some t \<Rightarrow> t \<notin> set (pendingTimers (stop h)))
   \<and> beatCountRef (stop h) = 0 \<and> preRollCountRef (stop h) = 0
   \<and> currentBeat (reactState (stop h)) = Some 0 \<and> preRollBeat (reactState (stop h)) = 0
   \<and> \<not> isPlaying (reactState (stop h)) \<and> \<not> isPreRoll (reactState (stop h))
   \<and> stop (stop h) = stop h"
  by (cases "timerIdRef h")
     (simp_all add: stop_def clearTimeout_def setPreRollBeat_def setCurrentBeat_def
        setIsPreRoll_def setIsPlaying_def)

lemmas metronome_defs =
  beat_def js_rem_def setPreRollBeat_def setIsPreRoll_def setCurrentBeat_def setIsPlaying_def
  playHiHat_def callOnPreRollComplete_def setTimeout_def preRollBars_def



text \<open>
  Every pass of the loop moves the next beat time forward by one beat, so for a positive
  tempo the look-ahead loop ends and \<open>scheduleNextBeat\<close> returns.
\<close>

lemma nextBeatTime_beat: "nextBeatTimeRef (beat r spb h) = nextBeatTimeRef h + spb"
  by (simp add: metronome_defs Let_def)

lemma lookAhead_returns:
  assumes "0 < spb"
  shows "\<exists>h'. lookAhead r spb now h = Some h'"
proof (induction "nat \<lceil>(now + 1 / 10 - nextBeatTimeRef h) / spb\<rceil>" arbitrary: h rule: less_induct)
  case less
  show ?case
  proof (cases "nextBeatTimeRef h < now + 1 / 10")
    case False
    then show ?thesis by (subst lookAhead.simps) simp
  next
    case True
    let ?x = "now + 1 / 10 - nextBeatTimeRef h"
    have pos: "0 < ?x / spb" using True assms by simp
    have "(now + 1 / 10 - nextBeatTimeRef (beat r spb h)) / spb = ?x / spb - 1"
      using assms by (simp add: nextBeatTime_beat field_simps)
    then have "\<lceil>(now + 1 / 10 - nextBeatTimeRef (beat r spb h)) / spb\<rceil> = \<lceil>?x / spb\<rceil> - 1"
      by simp
    moreover have "0 < \<lceil>?x / spb\<rceil>" using pos by simp
    ultimately have "nat \<lceil>(now + 1 / 10 - nextBeatTimeRef (beat r spb h)) / spb\<rceil>
        < nat \<lceil>?x / spb\<rceil>"
      by simp
    from less [OF this] obtain h' where "lookAhead r spb now (beat r spb h) = Some h'" ..
    with True show ?thesis by (subst lookAhead.simps) simp
  qed
qed

lemma scheduleNextBeat_returns:
  assumes "0 < tempo r"
  shows "\<exists>h'. scheduleNextBeat r now h = Some h'"
proof -
  have "0 < 60 / tempo r" using assms by simp
  from lookAhead_returns [OF this] obtain h' where "lookAhead r (60 / tempo r) now h = Some h'" ..
  with assms show ?thesis by (simp add: scheduleNextBeat_def)
qed

text \<open>
  A callback of a render in which \<open>isPreRoll\<close> is false never plays a pre-roll click and
  never touches the pre-roll counter, whatever the state setters have written since.
\<close>

lemma beat_outside_preroll:
  "\<not> isPreRoll r \<Longrightarrow>
     preRollCountRef (beat r spb h) = preRollCountRef h
     \<and> preRollBeat (reactState (beat r spb h)) = preRollBeat (reactState h)
     \<and> (\<exists>a. effects (beat r spb h) = effects h @ [HiHat a False])"
  by (simp add: metronome_defs Let_def)

text \<open>
  C1. The hook is mounted with its defaults (time signature 4, one pre-roll bar,
  \<open>isPreRoll\<close> false) and a completion callback, at tempo 120. \<open>start(true)\<close> is called
  at audio time 0 and the timeout runs at 0.5 s, 1 s, 1.5 s, 2 s and 2.5 s. The callback that
  runs is the one of the render in which \<open>start\<close> was created, where \<open>isPreRoll\<close> is
  false: six ordinary clicks are played, none of them a pre-roll click, the completion
  callback is never called, and the pre-roll counter and the published pre-roll beat stay 0
  while the published \<open>isPreRoll\<close> stays true.
\<close>

theorem fresh_start_with_preroll_plays_no_preroll:
  "map_option (\<lambda>h. (effects h, preRollCountRef h, preRollBeat (reactState h), isPreRoll (reactState h)))
     (Option.bind (start (reactState (mount 120 True)) True 0 (mount 120 True))
        (timerFiresAt (reactState (mount 120 True)) [1/2, 1, 3/2, 2, 5/2]))
   = Some ([HiHat True False, HiHat False False, HiHat False False, HiHat False False,
            HiHat True False, HiHat False False], 0, 0, True)"
  by code_simp

text \<open>
  From a render in which \<open>isPreRoll\<close> is already true the callback stays in pre-roll mode:
  the completion callback is called after every fourth click, and the pass that resets the
  beat counter to 0 leaves it at 1.
\<close>

lemma preroll_render_completes_repeatedly:
  "map_option (\<lambda>h. (effects h, beatCountRef h))
     (Option.bind (start ((reactState (mount 120 True))\<lparr>isPreRoll := True\<rparr>) True 0 (mount 120 True))
        (timerFiresAt ((reactState (mount 120 True))\<lparr>isPreRoll := True\<rparr>) [1/2, 1, 3/2, 2, 5/2, 3, 7/2]))
   = Some ([HiHat True True, HiHat False True, HiHat False True, HiHat False True, PreRollComplete,
            HiHat False True, HiHat False True, HiHat False True, HiHat True True, PreRollComplete], 1)"
  by code_simp

text \<open>
  C2. A pass of the scheduler loop outside pre-roll, with a beat counter \<open>\<ge> 0\<close> and a time
  signature \<open>\<ge> 1\<close>: \<open>beatInBar\<close> is the beat counter modulo the time signature and lies in
  \<open>[0, timeSignature)\<close>; the click played is accented exactly when \<open>beatInBar = 0\<close>; the
  published \<open>currentBeat\<close> is \<open>beatInBar + 1\<close>.
\<close>

theorem normal_beat_accent_and_currentBeat:
  assumes "\<not> isPreRoll r" and "0 \<le> beatCountRef h" and "1 \<le> timeSignature r"
  shows "js_rem (beatCountRef h) (timeSignature r) = Some (beatCountRef h mod timeSignature r)
     \<and> 0 \<le> beatCountRef h mod timeSignature r
     \<and> beatCountRef h mod timeSignature r < timeSignature r
     \<and> effects (beat r spb h) = effects h @ [HiHat (beatCountRef h mod timeSignature r = 0) False]
     \<and> currentBeat (reactState (beat r spb h)) = Some (beatCountRef h mod timeSignature r + 1)"
  using assms
  by (simp add: js_rem_nonneg beat_def Let_def playHiHat_def setCurrentBeat_def)

theorem normal_beat_witness:
  "effects (beat (reactState (mount 120 True)) (1/2) ((mount 120 True)\<lparr>beatCountRef := 5\<rparr>))
     = [HiHat False False]
   \<and> currentBeat (reactState (beat (reactState (mount 120 True)) (1/2) ((mount 120 True)\<lparr>beatCountRef := 5\<rparr>)))
     = Some 2"
  using normal_beat_accent_and_currentBeat
    [of "reactState (mount 120 True)" "(mount 120 True)\<lparr>beatCountRef := 5\<rparr>" "1/2"]
  by (simp add: mount_def)















section \<open>Properties of the playhead animator\<close>

lemma tick_step:
  assumes "getLoopDuration cfg h = Some d" and "0 < d" and "startTimeRef h = Some t0"
    and "t0 \<le> now" and "onLoopRestartRef h"
  shows "\<exists>h'. tick cfg (Some now) h = Some h'
     \<and> restarts h' = (if loopCountAt d t0 now > lastLoopCountRef h then Suc (restarts h) else restarts h)
     \<and> lastLoopCountRef h' = max (lastLoopCountRef h) (loopCountAt d t0 now)
     \<and> startTimeRef h' = Some t0 \<and> tempoRef h' = tempoRef h \<and> loopLengthRef h' = loopLengthRef h
     \<and> onLoopRestartRef h'"
  using assms
  by (simp add: tick_def Let_def js_fmod_def loopCountAt_def callOnLoopRestart_def
      requestAnimationFrame_def)

lemma getLoopDuration_cong:
  "tempoRef h' = tempoRef h \<Longrightarrow> loopLengthRef h' = loopLengthRef h
   \<Longrightarrow> getLoopDuration cfg h' = getLoopDuration cfg h"
  by (simp add: getLoopDuration_def)

lemma ticks_restarts:
  assumes "getLoopDuration cfg h = Some d" and "0 < d" and "startTimeRef h = Some t0"
    and "\<forall>now \<in> set nows. t0 \<le> now" and "onLoopRestartRef h"
  shows "\<exists>h'. ticks cfg nows h = Some h'
     \<and> restarts h' = restarts h + increases (lastLoopCountRef h) (map (loopCountAt d t0) nows)
     \<and> lastLoopCountRef h' = fold max (map (loopCountAt d t0) nows) (lastLoopCountRef h)"
  using assms
proof (induction nows arbitrary: h)
  case Nil
  then show ?case by simp
next
  case (Cons now nows)
  from Cons.prems have "t0 \<le> now" by simp
  from tick_step [OF Cons.prems(1) Cons.prems(2) Cons.prems(3) this Cons.prems(5)]
  obtain h1 where h1: "tick cfg (Some now) h = Some h1"
    "restarts h1 = (if loopCountAt d t0 now > lastLoopCountRef h then Suc (restarts h) else restarts h)"
    "lastLoopCountRef h1 = max (lastLoopCountRef h) (loopCountAt d t0 now)"
    "startTimeRef h1 = Some t0" "tempoRef h1 = tempoRef h" "loopLengthRef h1 = loopLengthRef h"
    "onLoopRestartRef h1"
    by blast
  have d1: "getLoopDuration cfg h1 = Some d"
    using getLoopDuration_cong [OF h1(5) h1(6)] Cons.prems(1) by simp
  from Cons.prems have rest: "\<forall>now \<in> set nows. t0 \<le> now" by simp
  from Cons.IH [OF d1 Cons.prems(2) h1(4) rest h1(7)]
  obtain h' where h': "ticks cfg nows h1 = Some h'"
    "restarts h' = restarts h1 + increases (lastLoopCountRef h1) (map (loopCountAt d t0) nows)"
    "lastLoopCountRef h' = fold max (map (loopCountAt d t0) nows) (lastLoopCountRef h1)"
    by blast
  show ?case
  proof (cases "loopCountAt d t0 now > lastLoopCountRef h")
    case True
    then have "max (lastLoopCountRef h) (loopCountAt d t0 now) = loopCountAt d t0 now" by simp
    with True h1 h' show ?thesis by (simp add: max.commute)
  next
    case False
    then have "max (lastLoopCountRef h) (loopCountAt d t0 now) = lastLoopCountRef h" by simp
    with False h1 h' show ?thesis by (simp add: max.commute)
  qed
qed

lemma fold_max_ge: "seen \<le> fold max ks (seen :: int)"
proof (induction ks arbitrary: seen)
  case Nil
  show ?case by simp
next
  case (Cons k ks)
  have "seen \<le> max k seen" by simp
  also have "\<dots> \<le> fold max ks (max k seen)" by (rule Cons.IH)
  finally show ?case by simp
qed

lemma increases_le: "int (increases seen ks) \<le> fold max ks seen - seen"
proof (induction ks arbitrary: seen)
  case Nil
  show ?case by simp
next
  case (Cons k ks)
  show ?case
  proof (cases "k > seen")
    case True
    then have "max k seen = k" by simp
    with True Cons.IH [of k] show ?thesis by simp
  next
    case False
    then have "max k seen = seen" by simp
    with False Cons.IH [of seen] show ?thesis by simp
  qed
qed

lemma increases_stepwise: "stepwise seen ks \<Longrightarrow> int (increases seen ks) = fold max ks seen - seen"
proof (induction ks arbitrary: seen)
  case Nil
  show ?case by simp
next
  case (Cons k ks)
  show ?case
  proof (cases "k > seen")
    case True
    with Cons.prems have k: "k = seen + 1" and s: "stepwise k ks" by simp_all
    from True have "max k seen = k" by simp
    with True Cons.IH [OF s] k show ?thesis by simp
  next
    case False
    then have m: "max k seen = seen" "max seen k = seen" by simp_all
    with Cons.prems have "stepwise seen ks" by simp
    with False Cons.IH [of seen] m show ?thesis by simp
  qed
qed

text \<open>
  C4. Frames that read the audio clock at or after the start time (\<open>elapsed \<ge> 0\<close>), with
  a loop duration \<open>> 0\<close> and a registered callback: running them returns, and
  \<open>onLoopRestart\<close> has been called once for every frame whose loop count
  \<open>floor (elapsed / loopDuration)\<close> exceeded the last observed value, which ends as the
  greatest loop count seen. The calls never outnumber the loops completed (no duplicates),
  and when no frame skips a loop they equal them (no misses).
\<close>

theorem loop_restart_once_per_increase:
  assumes "getLoopDuration cfg h = Some d" and "0 < d" and "startTimeRef h = Some t0"
    and "\<forall>now \<in> set nows. t0 \<le> now" and "onLoopRestartRef h"
  shows "map_option restarts (ticks cfg nows h)
           = Some (restarts h + increases (lastLoopCountRef h) (map (loopCountAt d t0) nows))
     \<and> map_option lastLoopCountRef (ticks cfg nows h)
           = Some (fold max (map (loopCountAt d t0) nows) (lastLoopCountRef h))
     \<and> int (increases (lastLoopCountRef h) (map (loopCountAt d t0) nows))
           \<le> fold max (map (loopCountAt d t0) nows) (lastLoopCountRef h) - lastLoopCountRef h
     \<and> (stepwise (lastLoopCountRef h) (map (loopCountAt d t0) nows) \<longrightarrow>
          int (increases (lastLoopCountRef h) (map (loopCountAt d t0) nows))
            = fold max (map (loopCountAt d t0) nows) (lastLoopCountRef h) - lastLoopCountRef h)"
  using ticks_restarts [OF assms] increases_le increases_stepwise by auto

text \<open>
  Tempo 120, four beats per measure, one measure: the loop lasts 2 s. Twelve frames from the
  start at clock time 10 cross 2 s, 4 s and 6 s of elapsed time: three calls.
\<close>

theorem loop_restart_witness:
  "map_option restarts
     (ticks \<lparr>beatsPerMeasure = 4, tripletsPerBeat = 3\<rparr>
        [10, 11, 119/10, 12, 25/2, 139/10, 141/10, 15, 159/10, 16, 161/10, 17]
        (startLoop (Some 10) (mountLoopMode 120 1 True))) = Some 3
   \<and> map_option lastLoopCountRef
     (ticks \<lparr>beatsPerMeasure = 4, tripletsPerBeat = 3\<rparr>
        [10, 11, 119/10, 12, 25/2, 139/10, 141/10, 15, 159/10, 16, 161/10, 17]
        (startLoop (Some 10) (mountLoopMode 120 1 True))) = Some 3"
proof -
  let ?h = "startLoop (Some 10) (mountLoopMode 120 1 True)"
  let ?cfg = "\<lparr>beatsPerMeasure = 4, tripletsPerBeat = 3\<rparr>"
  let ?nows = "[10, 11, 119/10, 12, 25/2, 139/10, 141/10, 15, 159/10, 16, 161/10, 17] :: real list"
  have d: "getLoopDuration ?cfg ?h = Some 2"
    by (simp add: getLoopDuration_def startLoop_def mountLoopMode_def requestAnimationFrame_def Let_def)
  have t0: "startTimeRef ?h = Some 10" and cb: "onLoopRestartRef ?h"
    and z: "lastLoopCountRef ?h = 0" "restarts ?h = 0"
    by (simp_all add: startLoop_def mountLoopMode_def requestAnimationFrame_def Let_def)
  have after: "\<forall>now \<in> set ?nows. 10 \<le> now" by simp
  have pos: "(0::real) < 2" by simp
  note w = loop_restart_once_per_increase [OF d pos t0 after cb]
  have counts: "map (loopCountAt 2 10) ?nows = [0, 0, 0, 1, 1, 1, 2, 2, 2, 3, 3, 3]"
    by (simp add: loopCountAt_def)
  have l: "fold max (map (loopCountAt 2 10) ?nows) (lastLoopCountRef ?h) = 3"
    unfolding counts z by simp
  have s: "stepwise (lastLoopCountRef ?h) (map (loopCountAt 2 10) ?nows)"
    unfolding counts z by simp
  have e: "int (increases (lastLoopCountRef ?h) (map (loopCountAt 2 10) ?nows))
          = fold max (map (loopCountAt 2 10) ?nows) (lastLoopCountRef ?h) - lastLoopCountRef ?h"
    by (rule w [THEN conjunct2, THEN conjunct2, THEN conjunct2, THEN mp, OF s])
  have arith: "\<And>(n::nat) (m::int) (b::int) (a::nat).
      int n = m - b \<Longrightarrow> m = 3 \<Longrightarrow> b = 0 \<Longrightarrow> a = 0 \<Longrightarrow> a + n = 3"
    by simp
  have r: "restarts ?h + increases (lastLoopCountRef ?h) (map (loopCountAt 2 10) ?nows) = 3"
    by (rule arith [OF e l z(1) z(2)])
  from w [THEN conjunct1] w [THEN conjunct2, THEN conjunct1] show ?thesis
    by (simp only: r l)
qed

text \<open>
  C10. \<open>seek p\<close> publishes \<open>min 1 (max 0 p)\<close> as the playhead, in the state and in the ref,
  for every \<open>p\<close>; this value lies in \<open>[0, 1]\<close>. With an audio context it rewrites the start
  time to \<open>now - clamped * loopDuration\<close>; without one it leaves the start time alone. (The
  tempo is not 0, so that the loop duration is a finite number.)
\<close>

theorem seek_clamps:
  assumes "tempoRef h \<noteq> 0"
  shows "map_option playhead (seek cfg audio p h) = Some (min 1 (max 0 p))
     \<and> map_option playheadRef (seek cfg audio p h) = Some (min 1 (max 0 p))
     \<and> 0 \<le> min 1 (max 0 p) \<and> min 1 (max 0 p) \<le> 1
     \<and> map_option startTimeRef (seek cfg (Some now) p h)
          = Some (Some (now - min 1 (max 0 p)
               * (60 / tempoRef h * of_int (beatsPerMeasure cfg) * of_int (loopLengthRef h))))
     \<and> map_option startTimeRef (seek cfg None p h) = Some (startTimeRef h)"
  using assms
  by (cases audio) (auto simp add: seek_def Let_def getLoopDuration_def min_def max_def)


theorem seek_witness:
  "map_option playhead (seek \<lparr>beatsPerMeasure = 4, tripletsPerBeat = 3\<rparr> (Some 10) (3 / 2)
      (mountLoopMode 120 1 True)) = Some 1
   \<and> map_option playhead (seek \<lparr>beatsPerMeasure = 4, tripletsPerBeat = 3\<rparr> (Some 10) (- 1 / 2)
      (mountLoopMode 120 1 True)) = Some 0
   \<and> map_option startTimeRef (seek \<lparr>beatsPerMeasure = 4, tripletsPerBeat = 3\<rparr> (Some 10) (3 / 2)
      (mountLoopMode 120 1 True)) = Some (Some 8)"
proof -
  let ?cfg = "\<lparr>beatsPerMeasure = 4, tripletsPerBeat = 3\<rparr>"
  let ?h = "mountLoopMode 120 1 True"
  have t: "tempoRef ?h \<noteq> 0" by (simp add: mountLoopMode_def)
  note above = seek_clamps [OF t, of ?cfg "Some 10" "3 / 2" 10]
  note below = seek_clamps [OF t, of ?cfg "Some 10" "- 1 / 2" 10]
  have v1: "min 1 (max 0 (3 / 2 :: real)) = 1" by simp
  have v2: "min 1 (max 0 (- 1 / 2 :: real)) = 0" by simp
  have d: "(10 :: real) - 1 * (60 / tempoRef ?h * of_int (beatsPerMeasure ?cfg)
             * of_int (loopLengthRef ?h)) = 8"
    by (simp add: mountLoopMode_def)
  from above [THEN conjunct1]
  have p1: "map_option playhead (seek ?cfg (Some 10) (3 / 2) ?h) = Some 1"
    unfolding v1 .
  from below [THEN conjunct1]
  have p2: "map_option playhead (seek ?cfg (Some 10) (- 1 / 2) ?h) = Some 0"
    unfolding v2 .
  from above [THEN conjunct2, THEN conjunct2, THEN conjunct2, THEN conjunct2, THEN conjunct1]
  have p3: "map_option startTimeRef (seek ?cfg (Some 10) (3 / 2) ?h) = Some (Some 8)"
    unfolding v1 d .
  from p1 p2 p3 show ?thesis by (intro conjI)
qed

section \<open>Properties of the audio service\<close>

lemma rampToSilence_mutedAt: "0 \<le> t \<Longrightarrow> rampToSilence t g = Inr (mutedAt t g)"
  by (simp add: rampToSilence_def andThen_def cancelScheduledValues_def setValueAtTime_def
      linearRampToValueAtTime_def mutedAt_def)

lemma mutedAt_idem: "mutedAt t (mutedAt t g) = mutedAt t g"
  by (simp add: mutedAt_def)

lemma endValue_mutedAt: "endValue (mutedAt t g) = 0"
  by (simp add: endValue_def mutedAt_def)

lemma pending_mutedAt:
  "filter (\<lambda>e. t \<le> eventTime e) (automations (mutedAt t g))
     = [SetValueAtTime (paramValue g) t, LinearRampToValueAtTime 0 (t + 1 / 100)]"
proof -
  have "filter (\<lambda>e. t \<le> eventTime e) (filter (\<lambda>e. eventTime e < t) (automations g)) = []"
    by (simp add: filter_empty_conv)
  then show ?thesis by (simp add: mutedAt_def)
qed

lemma stopAllSounds_initialized:
  assumes "ctx s = Some c" and "0 \<le> currentTime c"
    and "masterGains_bass s = Some gb" and "masterGains_metronome s = Some gm"
  shows "stopAllSounds s
     = Inr (s\<lparr>masterGains_bass := Some (mutedAt (currentTime c) gb),
              masterGains_metronome := Some (mutedAt (currentTime c) gm)\<rparr>)"
  using assms by (simp add: stopAllSounds_def andThen_def rampToSilence_mutedAt)

text \<open>
  C6. On a service with an audio context (whose clock is never negative) and both master
  gains, \<open>stopAllSounds\<close> returns normally and leaves each master gain as \<open>mutedAt\<close>
  describes: events from the current time on cancelled, the value read now pinned at the
  current time, one linear ramp to 0 ending 10 ms later. Each gain therefore ends at 0, and
  from the current time on exactly these two events are scheduled. A second call in the
  same instant returns normally too and changes nothing: no second ramp is added.
\<close>

theorem stopAllSounds_twice:
  assumes "ctx s = Some c" and "0 \<le> currentTime c"
    and "masterGains_bass s = Some gb" and "masterGains_metronome s = Some gm"
  shows "stopAllSounds s
       = Inr (s\<lparr>masterGains_bass := Some (mutedAt (currentTime c) gb),
                masterGains_metronome := Some (mutedAt (currentTime c) gm)\<rparr>)
     \<and> andThen (stopAllSounds s) stopAllSounds = stopAllSounds s
     \<and> endValue (mutedAt (currentTime c) gb) = 0 \<and> endValue (mutedAt (currentTime c) gm) = 0
     \<and> filter (\<lambda>e. currentTime c \<le> eventTime e) (automations (mutedAt (currentTime c) gb))
         = [SetValueAtTime (paramValue gb) (currentTime c),
            LinearRampToValueAtTime 0 (currentTime c + 1 / 100)]
     \<and> filter (\<lambda>e. currentTime c \<le> eventTime e) (automations (mutedAt (currentTime c) gm))
         = [SetValueAtTime (paramValue gm) (currentTime c),
            LinearRampToValueAtTime 0 (currentTime c + 1 / 100)]"
proof -
  let ?s' = "s\<lparr>masterGains_bass := Some (mutedAt (currentTime c) gb),
               masterGains_metronome := Some (mutedAt (currentTime c) gm)\<rparr>"
  have first: "stopAllSounds s = Inr ?s'"
    using stopAllSounds_initialized [OF assms] .
  have "stopAllSounds ?s' = Inr ?s'"
    using stopAllSounds_initialized [of ?s' c "mutedAt (currentTime c) gb" "mutedAt (currentTime c) gm"]
      assms(1) assms(2)
    by (simp add: mutedAt_idem)
  with first have "andThen (stopAllSounds s) stopAllSounds = stopAllSounds s"
    by (simp add: andThen_def)
  with first show ?thesis
    by (simp add: endValue_mutedAt pending_mutedAt)
qed

theorem stopAllSounds_twice_witness:
  "andThen (stopAllSounds (init newAudioService)) stopAllSounds
     = Inr ((init newAudioService)
         \<lparr>masterGains_bass := Some \<lparr>paramValue = 7 / 10, automations =
             [SetValueAtTime (7 / 10) 0, LinearRampToValueAtTime 0 (1 / 100)]\<rparr>,
          masterGains_metronome := Some \<lparr>paramValue = 5 / 10, automations =
             [SetValueAtTime (5 / 10) 0, LinearRampToValueAtTime 0 (1 / 100)]\<rparr>\<rparr>)"
proof -
  have c: "ctx (init newAudioService) = Some \<lparr>currentTime = 0\<rparr>"
    and b: "masterGains_bass (init newAudioService) = Some \<lparr>paramValue = 7 / 10, automations = []\<rparr>"
    and m: "masterGains_metronome (init newAudioService) = Some \<lparr>paramValue = 5 / 10, automations = []\<rparr>"
    by (simp_all add: init_def newAudioService_def)
  have t: "0 \<le> currentTime \<lparr>currentTime = 0\<rparr>" by simp
  note w = stopAllSounds_twice [OF c t b m]
  have "andThen (stopAllSounds (init newAudioService)) stopAllSounds
          = stopAllSounds (init newAudioService)"
    by (rule w [THEN conjunct2, THEN conjunct1])
  also note w [THEN conjunct1]
  finally show ?thesis
    by (simp add: mutedAt_def)
qed

text \<open>
  C8, as stated, fails for a level outside \<open>[0, 1]\<close>: \<open>setBassVolume 1.5\<close> on an
  initialised service leaves the bass gain at 1.5, not at the clamped level 1.
\<close>

theorem setVolume_counterexample:
  "map_option paramValue (masterGains_bass (setBassVolume (3 / 2) (init newAudioService)))
     \<noteq> Some (min 1 (max 0 (3 / 2)))"
  by (simp add: setBassVolume_def init_def newAudioService_def)

text \<open>
  C8, amended. On a service with both master gains, \<open>setBassVolume\<close> and
  \<open>setMetronomeVolume\<close> write the level as given into the value of their own master gain:
  nothing is clamped, nothing is scheduled on the gain (no ramp), the other gain is left
  alone, and the value read back is the level.
\<close>

theorem setVolume_applies_level_unchanged:
  assumes "masterGains_bass s = Some gb" and "masterGains_metronome s = Some gm"
  shows "masterGains_bass (setBassVolume level s) = Some (gb\<lparr>paramValue := level\<rparr>)
     \<and> masterGains_metronome (setBassVolume level s) = Some gm
     \<and> masterGains_metronome (setMetronomeVolume level s) = Some (gm\<lparr>paramValue := level\<rparr>)
     \<and> masterGains_bass (setMetronomeVolume level s) = Some gb
     \<and> map_option paramValue (masterGains_bass (setBassVolume level s)) = Some level
     \<and> map_option automations (masterGains_bass (setBassVolume level s)) = Some (automations gb)"
  using assms by (simp add: setBassVolume_def setMetronomeVolume_def)

theorem setVolume_witness:
  "map_option paramValue (masterGains_bass (setBassVolume (3 / 10) (init newAudioService)))
     = Some (3 / 10)"
  using setVolume_applies_level_unchanged [of "init newAudioService"
      "\<lparr>paramValue = 7 / 10, automations = []\<rparr>" "\<lparr>paramValue = 5 / 10, automations = []\<rparr>" "3 / 10"]
  by (simp add: init_def newAudioService_def)

text \<open>
  C5. On a service with an audio context, a loaded bass buffer and a bass master gain,
  playing an unmuted note on a string with a known open-string frequency, at a fret
  \<open>\<ge> 0\<close> and a time \<open>\<ge> 0\<close>, with a base frequency other than 0, starts one bass note whose
  playback rate is \<open>openFrequency * 2 ^ (fret / 12) / baseFrequency\<close>.
\<close>

theorem playSound_playbackRate:
  assumes "ctx s = Some c" and "buffers_bass s = Some b" and "masterGains_bass s = Some g"
    and "STRING_FREQUENCIES cfg string = Some openFrequency" and "baseFrequency cfg \<noteq> 0"
    and "0 \<le> fret" and "0 \<le> time"
  shows "playSound cfg string fret time False s
     = Inr (s\<lparr>sounds := sounds s @
         [BassNote (openFrequency * 2 powr (fret / 12) / baseFrequency cfg)
            [SetValueAtTime 0 time, LinearRampToValueAtTime 1 (time + 5 / 100),
             ExponentialRampToValueAtTime (1 / 1000) (time + 5 / 10)]
            time (time + 6 / 10)]\<rparr>)"
  using assms by (simp add: playSound_def playSampleNote_def Let_def)

text \<open>Open E at 41.2 Hz, a sample recorded at 41.2 Hz, fret 12: the rate is 2.\<close>

theorem playSound_octave_witness:
  "map_sum id (\<lambda>s. map playbackRate (sounds s))
     (playSound \<lparr>STRING_FREQUENCIES = [''E'' \<mapsto> 412 / 10], baseFrequency = 412 / 10\<rparr> ''E'' 12 1 False
        (loadSamples (Some (AudioBuffer ''bass'')) (Some (AudioBuffer ''click'')) (init newAudioService)))
   = Inr [Some 2]"
  using playSound_playbackRate [of
      "loadSamples (Some (AudioBuffer ''bass'')) (Some (AudioBuffer ''click'')) (init newAudioService)"
      "\<lparr>currentTime = 0\<rparr>" "AudioBuffer ''bass''" "\<lparr>paramValue = 7 / 10, automations = []\<rparr>"
      "\<lparr>STRING_FREQUENCIES = [''E'' \<mapsto> 412 / 10], baseFrequency = 412 / 10\<rparr>" "''E''" "412 / 10" 12 1]
  by (simp add: loadSamples_def init_def newAudioService_def)

text \<open>
  C7. While the bass buffer is unset, \<open>playSound\<close> returns normally and leaves the service
  as it was: no source is created. The same holds for \<open>playMetronomeClick\<close> while the click
  buffer is unset. Seen from the application, nothing at all changes: the metronome's beat
  counter is what it was.
\<close>

theorem play_before_load_is_noop:
  "(buffers_bass (service a) = None \<longrightarrow>
      playSound cfg string fret time muted (service a) = Inr (service a)
      \<and> onAudioService (playSound cfg string fret time muted) a = Inr a)
   \<and> (buffers_metronome_click (service a) = None \<longrightarrow>
      playMetronomeClick time isDownbeat isFirstOfBeat enabled (service a) = Inr (service a)
      \<and> onAudioService (playMetronomeClick time isDownbeat isFirstOfBeat enabled) a = Inr a)"
  by (simp add: playSound_def playMetronomeClick_def onAudioService_def andThen_def)

theorem play_before_load_witness:
  "onAudioService (playSound \<lparr>STRING_FREQUENCIES = [''E'' \<mapsto> 412 / 10], baseFrequency = 412 / 10\<rparr> ''E'' 12 1 False)
      \<lparr>service = init newAudioService, recordingMetronome = (mount 120 True)\<lparr>beatCountRef := 7\<rparr>\<rparr>
     = Inr \<lparr>service = init newAudioService, recordingMetronome = (mount 120 True)\<lparr>beatCountRef := 7\<rparr>\<rparr>
   \<and> onAudioService (playMetronomeClick 1 True True True)
      \<lparr>service = init newAudioService, recordingMetronome = (mount 120 True)\<lparr>beatCountRef := 7\<rparr>\<rparr>
     = Inr \<lparr>service = init newAudioService, recordingMetronome = (mount 120 True)\<lparr>beatCountRef := 7\<rparr>\<rparr>"
  using play_before_load_is_noop [of
      "\<lparr>service = init newAudioService, recordingMetronome = (mount 120 True)\<lparr>beatCountRef := 7\<rparr>\<rparr>"
      "\<lparr>STRING_FREQUENCIES = [''E'' \<mapsto> 412 / 10], baseFrequency = 412 / 10\<rparr>" "''E''" 12 1 False
      True True True]
  by (simp add: init_def newAudioService_def)


end
